theory Spec2Isabelle
  imports Complex_Main
begin

section \<open>The numerics orchestrator of lenstronomy (ImSim/Numerics/numerics.py)\<close>

text \<open>
  The class \<^verbatim>\<open>Numerics\<close> wires one coordinate grid and one convolution object from
  a pixel grid, a PSF and a handful of options, and offers two operations:
  \<^verbatim>\<open>coordinates_evaluate\<close> and \<^verbatim>\<open>re_size_convolve\<close>.

  Python floats are read as real numbers, numpy arrays as lists (a 2d array is the list
  of its rows), \<^verbatim>\<open>None\<close> as \<open>None\<close> of an option type, and an exception as the left
  summand of the result.
\<close>

subsection \<open>Data\<close>

type_synonym image = "real list list"
type_synonym mask = "bool list list"
type_synonym coordinates = "(real \<times> real) list"

text \<open>
  The exceptions a call can end with. \<open>ValueError\<close> carries the message of the
  \<^verbatim>\<open>raise ValueError(...)\<close> of the constructor (the specification calls it
  InvalidConfiguration). \<open>ShapeMismatch\<close> is the failure the specification gives
  the grid's reassembly. \<open>AttributeError\<close> is what Python raises when a method is
  called on \<^verbatim>\<open>None\<close>.
\<close>

datatype error = ValueError string | ShapeMismatch | AttributeError

text \<open>The two descriptors the constructor reads: only the attributes it touches.\<close>

record PixelGrid =
  pixel_width :: real
  num_pixel_axes :: "nat \<times> nat"
  transform_pix2angle :: "real list list"
  radec_at_xy_0 :: "real \<times> real"

record PSF =
  psf_type :: string
  fwhm :: real
  kernel_point_source :: image
  kernel_point_source_supersampled :: "int \<Rightarrow> image"

text \<open>
  The grid and convolution classes are imported by numerics.py from modules that are
  not part of the sources at hand. An object of such a class is represented by the name
  of the class together with the arguments the constructor call of numerics.py hands
  over, in the order of the call.
\<close>

datatype grid =
  AdaptiveGrid nat nat "real list list" real real mask int "mask option"
| RegularGrid nat nat "real list list" real real int "mask option"

datatype convolution =
  AdaptiveConvolution image int mask int "mask option" bool bool bool
| SubgridKernelConvolution image int int string
| PixelKernelConvolution image string
| MultiGaussianConvolution "real list" "real list" real int bool real

text \<open>
  The arguments of \<^verbatim>\<open>Numerics.__init__\<close>. The defaults of the signature are
  \<open>supersampling_factor = 1\<close>, \<open>compute_mode = ''regular''\<close>,
  \<open>supersampling_convolution = False\<close>, \<open>supersampling_kernel_size = 5\<close>, the three
  masks \<open>None\<close> and \<open>point_source_supersampling_factor = 1\<close>.
\<close>

record init_args =
  pixel_grid :: PixelGrid
  psf :: PSF
  supersampling_factor :: int
  compute_mode :: string
  supersampling_convolution :: bool
  supersampling_kernel_size :: int
  flux_evaluate_indexes :: "mask option"
  supersampled_indexes :: "mask option"
  compute_indexes :: "mask option"
  point_source_supersampling_factor :: int

text \<open>
  The attributes of a constructed \<^verbatim>\<open>Numerics\<close> object: \<^verbatim>\<open>_psf_type\<close>,
  \<^verbatim>\<open>_pixel_width\<close>, \<^verbatim>\<open>_grid\<close>, \<^verbatim>\<open>_conv\<close>, and the three arguments
  passed on to the base class \<^verbatim>\<open>PointSourceRendering\<close>.
\<close>

record numerics =
  self_psf_type :: string
  self_pixel_width :: real
  self_grid :: grid
  self_conv :: "convolution option"
  base_pixel_grid :: PixelGrid
  base_supersampling_factor :: int
  base_psf :: PSF

subsection \<open>The constructor\<close>

text \<open>
  Modelled from the spec: \<^verbatim>\<open>util.fwhm2sigma\<close> is not in the sources. The
  specification gives its value: sigma = FWHM / (2 sqrt (2 ln 2)).
\<close>

definition fwhm2sigma :: "real \<Rightarrow> real" where
  "fwhm2sigma w = w / (2 * sqrt (2 * ln 2))"

text \<open>The message of the \<^verbatim>\<open>ValueError\<close> of line 83.\<close>

definition psf_type_message :: "string \<Rightarrow> string" where
  "psf_type_message t =
     ''psf_type '' @ t @ '' not valid! Chose either NONE, GAUSSIAN or PIXEL.''"

text \<open>
  Lines 54 to 83: the choice of the convolution object. The flag is the one left after
  the normalisation of lines 40 and 41.
\<close>

definition select_conv ::
  "init_args \<Rightarrow> bool \<Rightarrow> mask \<Rightarrow> error + convolution option" where
  "select_conv a ss_conv ss_indexes =
     (if psf_type (psf a) = ''PIXEL'' then
        (if compute_mode a = ''adaptive'' \<and> ss_conv then
           Inr (Some (AdaptiveConvolution
             (kernel_point_source_supersampled (psf a) (supersampling_factor a))
             (supersampling_factor a) ss_indexes (supersampling_kernel_size a)
             (compute_indexes a) True True False))
         else if compute_mode a = ''regular'' \<and> ss_conv then
           Inr (Some (SubgridKernelConvolution
             (kernel_point_source_supersampled (psf a) (supersampling_factor a))
             (supersampling_factor a) (supersampling_kernel_size a) ''fft''))
         else
           Inr (Some (PixelKernelConvolution (kernel_point_source (psf a)) ''fft'')))
      else if psf_type (psf a) = ''GAUSSIAN'' then
        Inr (Some (MultiGaussianConvolution
          [fwhm2sigma (fwhm (psf a))] [1] (pixel_width (pixel_grid a))
          (supersampling_factor a) ss_conv 4))
      else if psf_type (psf a) = ''NONE'' then Inr None
      else Inl (ValueError (psf_type_message (psf_type (psf a)))))"

text \<open>
  \<^verbatim>\<open>Numerics.__init__\<close>, statement by statement: the normalisation of the flag,
  the default of \<^verbatim>\<open>supersampled_indexes\<close>, the grid, the convolution, the base class.
\<close>

definition Numerics_init :: "init_args \<Rightarrow> error + numerics" where
  "Numerics_init a =
     (let ss_conv = (if supersampling_factor a = 1 then False
                     else supersampling_convolution a);
          (nx, ny) = num_pixel_axes (pixel_grid a);
          t = transform_pix2angle (pixel_grid a);
          (ra_at_xy_0, dec_at_xy_0) = radec_at_xy_0 (pixel_grid a);
          ss_indexes = (case supersampled_indexes a of
                          None \<Rightarrow> replicate nx (replicate ny False)
                        | Some m \<Rightarrow> m);
          g = (if compute_mode a = ''adaptive'' then
                 AdaptiveGrid nx ny t ra_at_xy_0 dec_at_xy_0 ss_indexes
                   (supersampling_factor a) (flux_evaluate_indexes a)
               else
                 RegularGrid nx ny t ra_at_xy_0 dec_at_xy_0
                   (supersampling_factor a) (flux_evaluate_indexes a))
      in case select_conv a ss_conv ss_indexes of
           Inl e \<Rightarrow> Inl e
         | Inr c \<Rightarrow>
             Inr \<lparr> self_psf_type = psf_type (psf a),
                   self_pixel_width = pixel_width (pixel_grid a),
                   self_grid = g,
                   self_conv = c,
                   base_pixel_grid = pixel_grid a,
                   base_supersampling_factor = point_source_supersampling_factor a,
                   base_psf = psf a \<rparr>)"

subsection \<open>The two operations\<close>

text \<open>
  The methods of the absent classes that \<^verbatim>\<open>Numerics\<close> calls are parameters of
  its operations: \<^verbatim>\<open>self._grid.coordinates_evaluate\<close>,
  \<^verbatim>\<open>self._grid.flux_array2image_low_high\<close> and
  \<^verbatim>\<open>self._conv.re_size_convolve\<close>. The last two may raise.
\<close>

record collaborators =
  grid_coordinates_evaluate :: "grid \<Rightarrow> coordinates"
  grid_flux_array2image_low_high :: "grid \<Rightarrow> real list \<Rightarrow> error + image \<times> image option"
  conv_re_size_convolve :: "convolution \<Rightarrow> image \<Rightarrow> image option \<Rightarrow> error + image"

text \<open>A numpy array times a scalar: every entry is multiplied.\<close>

definition image_times :: "image \<Rightarrow> real \<Rightarrow> image" where
  "image_times img c = map (map (\<lambda>v. v * c)) img"

text \<open>
  \<^verbatim>\<open>Numerics.re_size_convolve\<close> (lines 87 to 101). The grid is asked first,
  whatever the flag; the convolution only when the flag is off and the PSF type is not
  \<^verbatim>\<open>'NONE'\<close>. A call of \<^verbatim>\<open>self._conv.re_size_convolve\<close> with
  \<^verbatim>\<open>self._conv\<close> being \<^verbatim>\<open>None\<close> is Python's AttributeError.
\<close>

definition re_size_convolve ::
  "collaborators \<Rightarrow> numerics \<Rightarrow> real list \<Rightarrow> bool \<Rightarrow> error + image" where
  "re_size_convolve X eng flux_array unconvolved =
     (case grid_flux_array2image_low_high X (self_grid eng) flux_array of
        Inl e \<Rightarrow> Inl e
      | Inr (image_low_res, image_high_res_partial) \<Rightarrow>
          (case (if unconvolved \<or> self_psf_type eng = ''NONE'' then Inr image_low_res
                 else (case self_conv eng of
                         None \<Rightarrow> Inl AttributeError
                       | Some c \<Rightarrow>
                           conv_re_size_convolve X c image_low_res image_high_res_partial))
           of Inl e \<Rightarrow> Inl e
            | Inr image_conv \<Rightarrow> Inr (image_times image_conv ((self_pixel_width eng) ^ 2))))"

text \<open>The property \<^verbatim>\<open>Numerics.coordinates_evaluate\<close> (lines 103 to 109).\<close>

definition coordinates_evaluate :: "collaborators \<Rightarrow> numerics \<Rightarrow> coordinates" where
  "coordinates_evaluate X eng = grid_coordinates_evaluate X (self_grid eng)"

subsection \<open>Calls on an object, one after the other\<close>

text \<open>
  Neither method assigns an attribute of \<^verbatim>\<open>self\<close>, and the product
  \<^verbatim>\<open>image_conv * self._pixel_width ** 2\<close> is a new array. A call therefore hands
  the object on as it found it, next to its answer.
\<close>

datatype call = Coordinates_evaluate | Re_size_convolve "real list" bool

datatype reply = Coordinates coordinates | Rendered "error + image"

definition step :: "collaborators \<Rightarrow> numerics \<Rightarrow> call \<Rightarrow> numerics \<times> reply" where
  "step X eng c =
     (case c of
        Coordinates_evaluate \<Rightarrow> (eng, Coordinates (coordinates_evaluate X eng))
      | Re_size_convolve flux_array unconvolved \<Rightarrow>
          (eng, Rendered (re_size_convolve X eng flux_array unconvolved)))"

fun run :: "collaborators \<Rightarrow> numerics \<Rightarrow> call list \<Rightarrow> numerics \<times> reply list" where
  "run X eng [] = (eng, [])"
| "run X eng (c # cs) =
     (case step X eng c of
        (eng1, r) \<Rightarrow> (case run X eng1 cs of (eng2, rs) \<Rightarrow> (eng2, r # rs)))"

subsection \<open>The grid and the convolution as the specification describes them\<close>

text \<open>
  What the specification leaves open about a grid: how many coordinates it lists, where
  they are, and which images it assembles from a flux array of the right length.
\<close>

record grid_remainder =
  coordinate_count :: "grid \<Rightarrow> nat"
  coordinate_at :: "grid \<Rightarrow> nat \<Rightarrow> real \<times> real"
  reassemble :: "grid \<Rightarrow> real list \<Rightarrow> image \<times> image option"

text \<open>
  Modelled from the spec: the reshaping helper of the grid is not in the sources. The
  specification speaks of the flux array reshaped to (nx, ny): a flat array read as
  \<open>nx\<close> rows of \<open>ny\<close> entries.
\<close>

definition array2image :: "nat \<Rightarrow> nat \<Rightarrow> real list \<Rightarrow> image" where
  "array2image nx ny flux = map (\<lambda>i. take ny (drop (i * ny) flux)) [0..<nx]"

text \<open>
  Modelled from the spec: the methods of \<^verbatim>\<open>RegularGrid\<close> and \<^verbatim>\<open>AdaptiveGrid\<close>
  (module ImSim/Numerics/grid.py) are not in the sources. The specification fixes this
  much. A regular grid samples every pixel; with supersampling factor 1 and no
  evaluation mask that is one coordinate per pixel, the low-resolution image is the
  flux array reshaped to (nx, ny), and there is no separate high-resolution image.
  \<^verbatim>\<open>flux_array2image_low_high\<close> fails with ShapeMismatch if
  \<^verbatim>\<open>len(flux_array) != len(coordinates_evaluate)\<close>. Everything else is taken from
  the \<open>grid_remainder\<close>.
\<close>

fun spec_coordinate_count :: "grid_remainder \<Rightarrow> grid \<Rightarrow> nat" where
  "spec_coordinate_count R (RegularGrid nx ny t ra dec s fe) =
     (if s = 1 \<and> fe = None then nx * ny
      else coordinate_count R (RegularGrid nx ny t ra dec s fe))"
| "spec_coordinate_count R (AdaptiveGrid nx ny t ra dec si s fe) =
     coordinate_count R (AdaptiveGrid nx ny t ra dec si s fe)"

text \<open>
  Modelled from the spec: \<^verbatim>\<open>coordinates_evaluate\<close> of a grid, an ordered sequence
  with one entry per flux sample.
\<close>

definition spec_coordinates_evaluate :: "grid_remainder \<Rightarrow> grid \<Rightarrow> coordinates" where
  "spec_coordinates_evaluate R g = map (coordinate_at R g) [0..<spec_coordinate_count R g]"

text \<open>
  Modelled from the spec: the images a grid assembles from a flux array of the right
  length (low resolution, and high resolution if there is one).
\<close>

fun spec_reassemble :: "grid_remainder \<Rightarrow> grid \<Rightarrow> real list \<Rightarrow> image \<times> image option" where
  "spec_reassemble R (RegularGrid nx ny t ra dec s fe) flux =
     (if s = 1 \<and> fe = None then (array2image nx ny flux, None)
      else reassemble R (RegularGrid nx ny t ra dec s fe) flux)"
| "spec_reassemble R (AdaptiveGrid nx ny t ra dec si s fe) flux =
     reassemble R (AdaptiveGrid nx ny t ra dec si s fe) flux"

text \<open>
  Modelled from the spec: \<^verbatim>\<open>flux_array2image_low_high\<close> of a grid, with the
  failure the specification gives it.
\<close>

definition spec_flux_array2image_low_high ::
  "grid_remainder \<Rightarrow> grid \<Rightarrow> real list \<Rightarrow> error + image \<times> image option" where
  "spec_flux_array2image_low_high R g flux =
     (if length flux \<noteq> length (spec_coordinates_evaluate R g) then Inl ShapeMismatch
      else Inr (spec_reassemble R g flux))"

text \<open>
  Modelled from the spec: the method \<^verbatim>\<open>re_size_convolve\<close> of the convolution
  classes (module ImSim/Numerics/convolution.py) is not in the sources. The
  specification's contract is that it turns the two partial images into one blurred
  image and names no failure; which image is the parameter \<open>blur\<close>.
\<close>

definition spec_collaborators ::
  "grid_remainder \<Rightarrow> (convolution \<Rightarrow> image \<Rightarrow> image option \<Rightarrow> image) \<Rightarrow> collaborators" where
  "spec_collaborators R blur =
     \<lparr> grid_coordinates_evaluate = spec_coordinates_evaluate R,
       grid_flux_array2image_low_high = spec_flux_array2image_low_high R,
       conv_re_size_convolve = (\<lambda>c lo hi. Inr (blur c lo hi)) \<rparr>"

subsection \<open>Predicates used in the statements\<close>

definition recognised_psf_type :: "string \<Rightarrow> bool" where
  "recognised_psf_type t = (t = ''PIXEL'' \<or> t = ''GAUSSIAN'' \<or> t = ''NONE'')"


definition is_ValueError :: "error \<Rightarrow> bool" where
  "is_ValueError e = (case e of ValueError m \<Rightarrow> True | _ \<Rightarrow> False)"

text \<open>
  Whether a convolution object works on the supersampled grid: the adaptive and the
  subgrid convolution do, the multi-Gaussian one if it was given the flag.
\<close>

definition uses_supersampled_convolution :: "convolution option \<Rightarrow> bool" where
  "uses_supersampled_convolution c =
     (case c of
        Some (AdaptiveConvolution k s m n ci np ca pa) \<Rightarrow> True
      | Some (SubgridKernelConvolution k s n ty) \<Rightarrow> True
      | Some (MultiGaussianConvolution sl fl ps s b tr) \<Rightarrow> b
      | _ \<Rightarrow> False)"





subsection \<open>Collaborators that keep state of their own\<close>

text \<open>
  An object of an absent class may hold more than its constructor arguments (a cache,
  attributes added on first use). That further state of the grid and the convolution
  object is a value of type \<open>'h\<close>; their methods read it and hand back the new one
  next to their answer.
\<close>

record 'h stateful_collaborators =
  st_coordinates_evaluate :: "grid \<Rightarrow> 'h \<Rightarrow> 'h \<times> coordinates"
  st_flux_array2image_low_high ::
    "grid \<Rightarrow> 'h \<Rightarrow> real list \<Rightarrow> 'h \<times> (error + image \<times> image option)"
  st_re_size_convolve ::
    "convolution \<Rightarrow> 'h \<Rightarrow> image \<Rightarrow> image option \<Rightarrow> 'h \<times> (error + image)"

text \<open>
  \<^verbatim>\<open>Numerics.re_size_convolve\<close> (lines 87 to 101) once more, with the state of the
  collaborators threaded through the two calls in the order of the source. What a
  callee did to its state stays done when the call raises.
\<close>

definition re_size_convolve_st ::
  "'h stateful_collaborators \<Rightarrow> numerics \<Rightarrow> 'h \<Rightarrow> real list \<Rightarrow> bool
     \<Rightarrow> 'h \<times> (error + image)" where
  "re_size_convolve_st Y eng h flux_array unconvolved =
     (case st_flux_array2image_low_high Y (self_grid eng) h flux_array of
        (h1, Inl e) \<Rightarrow> (h1, Inl e)
      | (h1, Inr (image_low_res, image_high_res_partial)) \<Rightarrow>
          (if unconvolved \<or> self_psf_type eng = ''NONE'' then
             (h1, Inr (image_times image_low_res ((self_pixel_width eng) ^ 2)))
           else
             (case self_conv eng of
                None \<Rightarrow> (h1, Inl AttributeError)
              | Some c \<Rightarrow>
                  (case st_re_size_convolve Y c h1 image_low_res image_high_res_partial of
                     (h2, Inl e) \<Rightarrow> (h2, Inl e)
                   | (h2, Inr image_conv) \<Rightarrow>
                       (h2, Inr (image_times image_conv ((self_pixel_width eng) ^ 2)))))))"

text \<open>
  One call on the object: the attributes of \<^verbatim>\<open>self\<close> are not assigned, the state of
  the collaborators is what the callees left.
\<close>

definition step_st ::
  "'h stateful_collaborators \<Rightarrow> numerics \<times> 'h \<Rightarrow> call \<Rightarrow> (numerics \<times> 'h) \<times> reply" where
  "step_st Y s c =
     (case c of
        Coordinates_evaluate \<Rightarrow>
          (case st_coordinates_evaluate Y (self_grid (fst s)) (snd s) of
             (h1, cs) \<Rightarrow> ((fst s, h1), Coordinates cs))
      | Re_size_convolve flux_array unconvolved \<Rightarrow>
          (case re_size_convolve_st Y (fst s) (snd s) flux_array unconvolved of
             (h1, r) \<Rightarrow> ((fst s, h1), Rendered r)))"

fun run_st ::
  "'h stateful_collaborators \<Rightarrow> numerics \<times> 'h \<Rightarrow> call list
     \<Rightarrow> (numerics \<times> 'h) \<times> reply list" where
  "run_st Y s [] = (s, [])"
| "run_st Y s (c # cs) =
     (case step_st Y s c of
        (s1, r) \<Rightarrow> (case run_st Y s1 cs of (s2, rs) \<Rightarrow> (s2, r # rs)))"




definition leaking_collaborators :: "collaborators \<Rightarrow> nat stateful_collaborators" where
  "leaking_collaborators X =
     \<lparr> st_coordinates_evaluate = (\<lambda>g h. (Suc h, replicate h (0, 0))),
       st_flux_array2image_low_high =
         (\<lambda>g h f. (Suc h, grid_flux_array2image_low_high X g f)),
       st_re_size_convolve = (\<lambda>c h lo hi. (Suc h, conv_re_size_convolve X c lo hi)) \<rparr>"

subsection \<open>Concrete inputs\<close>

text \<open>
  A 2 by 2 pixel grid of pixel width 1/2, the 10 by 10 grid of pixel width 1/10 of the
  specification's scenario, a PSF of a given type, and the constructor's arguments with
  every default of the signature.
\<close>

definition demo_pixel_grid :: PixelGrid where
  "demo_pixel_grid =
     \<lparr> pixel_width = 1 / 2, num_pixel_axes = (2, 2),
       transform_pix2angle = [[1 / 2, 0], [0, 1 / 2]], radec_at_xy_0 = (0, 0) \<rparr>"

definition scenario_pixel_grid :: PixelGrid where
  "scenario_pixel_grid =
     \<lparr> pixel_width = 1 / 10, num_pixel_axes = (10, 10),
       transform_pix2angle = [[1 / 10, 0], [0, 1 / 10]], radec_at_xy_0 = (0, 0) \<rparr>"

definition demo_psf :: "string \<Rightarrow> PSF" where
  "demo_psf t =
     \<lparr> psf_type = t, fwhm = 1 / 5, kernel_point_source = [[1]],
       kernel_point_source_supersampled = (\<lambda>s. [[1]]) \<rparr>"

definition default_args :: "PixelGrid \<Rightarrow> PSF \<Rightarrow> init_args" where
  "default_args pg p =
     \<lparr> pixel_grid = pg, psf = p, supersampling_factor = 1, compute_mode = ''regular'',
       supersampling_convolution = False, supersampling_kernel_size = 5,
       flux_evaluate_indexes = None, supersampled_indexes = None, compute_indexes = None,
       point_source_supersampling_factor = 1 \<rparr>"

text \<open>
  The object the constructor returns on the 2 by 2 grid in regular mode with
  supersampling factor 1: only the PSF type and the convolution vary.
\<close>

definition demo_engine :: "string \<Rightarrow> convolution option \<Rightarrow> numerics" where
  "demo_engine t c =
     \<lparr> self_psf_type = t, self_pixel_width = 1 / 2,
       self_grid = RegularGrid 2 2 [[1 / 2, 0], [0, 1 / 2]] 0 0 1 None,
       self_conv = c, base_pixel_grid = demo_pixel_grid, base_supersampling_factor = 1,
       base_psf = demo_psf t \<rparr>"



text \<open>
  Collaborators for the concrete inputs: a grid that follows the specification where it
  is explicit and lists no coordinate elsewhere, and a convolution that hands the
  low-resolution image back.
\<close>

definition demo_remainder :: grid_remainder where
  "demo_remainder =
     \<lparr> coordinate_count = (\<lambda>g. 0), coordinate_at = (\<lambda>g k. (0, 0)),
       reassemble = (\<lambda>g flux. ([], None)) \<rparr>"

definition demo_collaborators :: collaborators where
  "demo_collaborators = spec_collaborators demo_remainder (\<lambda>c lo hi. lo)"

section \<open>Facts about the constructor and the call sequence\<close>

lemma Numerics_init_Inl_iff:
  "Numerics_init a = Inl e \<longleftrightarrow>
     \<not> recognised_psf_type (psf_type (psf a))
     \<and> e = ValueError (psf_type_message (psf_type (psf a)))"
  by (auto simp: Numerics_init_def select_conv_def Let_def recognised_psf_type_def
      split: prod.splits)

lemma Numerics_init_Inr_fields:
  assumes "Numerics_init a = Inr eng"
  shows "self_psf_type eng = psf_type (psf a)"
    and "self_pixel_width eng = pixel_width (pixel_grid a)"
    and "recognised_psf_type (psf_type (psf a))"
  using assms
  by (auto simp: Numerics_init_def select_conv_def Let_def recognised_psf_type_def
      split: prod.splits if_splits)

lemma Numerics_init_succeeds:
  assumes "recognised_psf_type (psf_type (psf a))"
  shows "\<exists>eng. Numerics_init a = Inr eng"
proof (cases "Numerics_init a")
  case (Inl e)
  then show ?thesis using assms Numerics_init_Inl_iff [of a e] by simp
next
  case (Inr eng)
  then show ?thesis by blast
qed

lemma step_keeps_engine: "fst (step X eng c) = eng"
  by (cases c) (simp_all add: step_def)

lemma run_keeps_engine: "fst (run X eng cs) = eng"
  by (induction cs) (simp_all add: split_beta step_keeps_engine)

lemma array2image_replicate:
  "array2image nx ny (replicate (nx * ny) v) = replicate nx (replicate ny v)"
proof -
  have "take ny (drop (i * ny) (replicate (nx * ny) v)) = replicate ny v" if "i < nx" for i
  proof -
    have "Suc i * ny \<le> nx * ny"
      using that by (simp add: Suc_leI mult_le_mono1 del: mult_Suc)
    then have "ny \<le> nx * ny - i * ny" by simp
    then show ?thesis by (simp add: min_absorb2)
  qed
  then have "map (\<lambda>i. take ny (drop (i * ny) (replicate (nx * ny) v))) [0..<nx]
               = map (\<lambda>i. replicate ny v) [0..<nx]"
    by (intro map_cong) auto
  also have "\<dots> = replicate nx (replicate ny v)"
    by (simp add: map_replicate_const)
  finally show ?thesis by (simp add: array2image_def)
qed

lemma image_times_replicate:
  "image_times (replicate nx (replicate ny v)) c = replicate nx (replicate ny (v * c))"
  by (simp add: image_times_def)

subsection \<open>The concrete inputs, evaluated\<close>

lemma demo_init:
  "Numerics_init (default_args demo_pixel_grid (demo_psf ''GAUSSIAN'')) =
     Inr (demo_engine ''GAUSSIAN''
            (Some (MultiGaussianConvolution [fwhm2sigma (1 / 5)] [1] (1 / 2) 1 False 4)))"
  "Numerics_init (default_args demo_pixel_grid (demo_psf ''NONE'')) =
     Inr (demo_engine ''NONE'' None)"
  "Numerics_init (default_args demo_pixel_grid (demo_psf ''PIXEL'')) =
     Inr (demo_engine ''PIXEL'' (Some (PixelKernelConvolution [[1]] ''fft'')))"
  by (simp_all add: Numerics_init_def select_conv_def default_args_def demo_pixel_grid_def
      demo_psf_def demo_engine_def)

lemma array2image_2_2: "array2image 2 2 [a, b, c, d] = [[a, b], [c, d]]"
  by (simp add: array2image_def upt_rec)

lemma demo_grid_images:
  "grid_flux_array2image_low_high demo_collaborators (self_grid (demo_engine t c))
     [1, 2, 3, 4] = Inr ([[1, 2], [3, 4]], None)"
  by (simp add: demo_collaborators_def spec_collaborators_def demo_engine_def
      spec_flux_array2image_low_high_def spec_coordinates_evaluate_def array2image_2_2)

lemma demo_coordinates:
  "coordinates_evaluate demo_collaborators (demo_engine t c) = [(0, 0), (0, 0), (0, 0), (0, 0)]"
  by (simp add: coordinates_evaluate_def demo_collaborators_def spec_collaborators_def
      demo_engine_def spec_coordinates_evaluate_def demo_remainder_def upt_rec)

lemma demo_render:
  "re_size_convolve demo_collaborators (demo_engine ''NONE'' None) [1, 2, 3, 4] u
     = Inr [[1 / 4, 1 / 2], [3 / 4, 1]]"
  using demo_grid_images [of "''NONE''" None]
  by (simp add: re_size_convolve_def demo_engine_def image_times_def power2_eq_square)

subsection \<open>Calls on collaborators that keep state\<close>








text \<open>
  Without the contract the answers need not repeat: a grid whose coordinate sequence
  depends on how often it was asked answers two equal calls differently.
\<close>

lemma leaking_grid_answers_differ:
  "snd (run_st (leaking_collaborators X) (eng, 0) [Coordinates_evaluate, Coordinates_evaluate])
     = [Coordinates [], Coordinates [(0, 0)]]"
  by (simp add: step_st_def leaking_collaborators_def)



section \<open>The claims\<close>

text \<open>
  C1. For every constructed Numerics object and every flux array the grid can
  reassemble, \<^verbatim>\<open>re_size_convolve(flux_array, unconvolved=True)\<close> returns the
  low-resolution image the grid reassembled from the flux array, times the square of
  the pixel width of the pixel grid, whatever the PSF type and whatever the grid and
  the convolution compute.
\<close>

theorem re_size_convolve_unconvolved:
  assumes "Numerics_init a = Inr eng"
    and "grid_flux_array2image_low_high X (self_grid eng) flux_array = Inr (low, high)"
  shows "re_size_convolve X eng flux_array True
           = Inr (image_times low ((pixel_width (pixel_grid a))\<^sup>2))"
  using assms Numerics_init_Inr_fields(2) [of a eng]
  by (simp add: re_size_convolve_def)

theorem re_size_convolve_unconvolved_witness:
  "Numerics_init (default_args demo_pixel_grid (demo_psf ''GAUSSIAN''))
     = Inr (demo_engine ''GAUSSIAN''
              (Some (MultiGaussianConvolution [fwhm2sigma (1 / 5)] [1] (1 / 2) 1 False 4)))
   \<and> re_size_convolve demo_collaborators
       (demo_engine ''GAUSSIAN''
          (Some (MultiGaussianConvolution [fwhm2sigma (1 / 5)] [1] (1 / 2) 1 False 4)))
       [1, 2, 3, 4] True
     = Inr [[1 / 4, 1 / 2], [3 / 4, 1]]"
proof -
  have "re_size_convolve demo_collaborators
          (demo_engine ''GAUSSIAN''
             (Some (MultiGaussianConvolution [fwhm2sigma (1 / 5)] [1] (1 / 2) 1 False 4)))
          [1, 2, 3, 4] True
        = Inr (image_times [[1, 2], [3, 4]]
            ((pixel_width (pixel_grid (default_args demo_pixel_grid (demo_psf ''GAUSSIAN''))))\<^sup>2))"
    by (rule re_size_convolve_unconvolved [OF demo_init(1) demo_grid_images])
  moreover have "image_times [[1, 2], [3, 4]]
      ((pixel_width (pixel_grid (default_args demo_pixel_grid (demo_psf ''GAUSSIAN''))))\<^sup>2)
    = [[1 / 4, 1 / 2], [3 / 4, 1]]"
    by (simp add: default_args_def demo_pixel_grid_def image_times_def power2_eq_square)
  ultimately show ?thesis
    using demo_init(1) by simp
qed

text \<open>
  C2. With \<^verbatim>\<open>supersampling_factor == 1\<close> the constructor builds what it builds for
  \<^verbatim>\<open>supersampling_convolution=False\<close>, whatever flag the caller passed: no
  convolution object on the supersampled grid comes out of it.
\<close>

theorem supersampling_factor_one_turns_flag_off:
  assumes "supersampling_factor a = 1"
  shows "Numerics_init a = Numerics_init (a\<lparr>supersampling_convolution := False\<rparr>)
         \<and> (\<forall>eng. Numerics_init a = Inr eng
               \<longrightarrow> \<not> uses_supersampled_convolution (self_conv eng))"
  using assms
  by (auto simp: Numerics_init_def select_conv_def Let_def uses_supersampled_convolution_def
      split: prod.splits if_splits)

theorem supersampling_factor_one_turns_flag_off_witness:
  "supersampling_factor
     ((default_args demo_pixel_grid (demo_psf ''PIXEL''))\<lparr>supersampling_convolution := True\<rparr>)
     = 1
   \<and> Numerics_init
       ((default_args demo_pixel_grid (demo_psf ''PIXEL''))\<lparr>supersampling_convolution := True\<rparr>)
     = Inr (demo_engine ''PIXEL'' (Some (PixelKernelConvolution [[1]] ''fft'')))
   \<and> \<not> uses_supersampled_convolution (Some (PixelKernelConvolution [[1]] ''fft''))"
proof -
  have one: "supersampling_factor
     ((default_args demo_pixel_grid (demo_psf ''PIXEL''))\<lparr>supersampling_convolution := True\<rparr>)
     = 1"
    by (simp add: default_args_def)
  have same: "(default_args demo_pixel_grid (demo_psf ''PIXEL''))
                \<lparr>supersampling_convolution := True, supersampling_convolution := False\<rparr>
              = default_args demo_pixel_grid (demo_psf ''PIXEL'')"
    by (simp add: default_args_def)
  have built: "Numerics_init
       ((default_args demo_pixel_grid (demo_psf ''PIXEL''))\<lparr>supersampling_convolution := True\<rparr>)
     = Inr (demo_engine ''PIXEL'' (Some (PixelKernelConvolution [[1]] ''fft'')))"
    using supersampling_factor_one_turns_flag_off [OF one] same demo_init(3) by simp
  have "\<not> uses_supersampled_convolution
            (self_conv (demo_engine ''PIXEL'' (Some (PixelKernelConvolution [[1]] ''fft''))))"
    using supersampling_factor_one_turns_flag_off [OF one] built by blast
  then have "\<not> uses_supersampled_convolution (Some (PixelKernelConvolution [[1]] ''fft''))"
    by (simp add: demo_engine_def)
  with one built show ?thesis by simp
qed

text \<open>
  C3. On an object constructed with PSF type \<^verbatim>\<open>'NONE'\<close> the flag
  \<^verbatim>\<open>unconvolved\<close> has no effect on \<^verbatim>\<open>re_size_convolve\<close>: both values give
  the same result, for every flux array and whatever the grid computes.
\<close>

theorem psf_none_ignores_unconvolved:
  assumes "Numerics_init a = Inr eng" and "psf_type (psf a) = ''NONE''"
  shows "re_size_convolve X eng flux_array True = re_size_convolve X eng flux_array False"
proof -
  have "self_psf_type eng = ''NONE''"
    using assms Numerics_init_Inr_fields(1) [of a eng] by simp
  then show ?thesis
    by (simp add: re_size_convolve_def split: sum.splits prod.splits)
qed

theorem psf_none_ignores_unconvolved_witness:
  "psf_type (psf (default_args demo_pixel_grid (demo_psf ''NONE''))) = ''NONE''
   \<and> re_size_convolve demo_collaborators (demo_engine ''NONE'' None) [1, 2, 3, 4] True
     = re_size_convolve demo_collaborators (demo_engine ''NONE'' None) [1, 2, 3, 4] False
   \<and> re_size_convolve demo_collaborators (demo_engine ''NONE'' None) [1, 2, 3, 4] False
     = Inr [[1 / 4, 1 / 2], [3 / 4, 1]]"
proof -
  have none: "psf_type (psf (default_args demo_pixel_grid (demo_psf ''NONE''))) = ''NONE''"
    by (simp add: default_args_def demo_psf_def)
  show ?thesis
    using psf_none_ignores_unconvolved [OF demo_init(2) none, of demo_collaborators "[1, 2, 3, 4]"]
      none demo_render [of False]
    by simp
qed

text \<open>
  C4. A PSF type other than \<^verbatim>\<open>'NONE'\<close>, \<^verbatim>\<open>'GAUSSIAN'\<close> and \<^verbatim>\<open>'PIXEL'\<close>
  makes the constructor raise its ValueError (the specification's
  InvalidConfiguration), so every object that is constructed has one of the three
  types.
\<close>

theorem unrecognised_psf_type_fails:
  "(\<not> recognised_psf_type (psf_type (psf a)) \<longrightarrow>
      (\<exists>e. Numerics_init a = Inl e \<and> is_ValueError e
            \<and> e = ValueError (psf_type_message (psf_type (psf a)))))
   \<and> (\<forall>eng. Numerics_init a = Inr eng \<longrightarrow> recognised_psf_type (self_psf_type eng))"
  using Numerics_init_Inl_iff [of a] Numerics_init_Inr_fields [of a]
  by (auto simp: is_ValueError_def)

theorem unrecognised_psf_type_fails_witness:
  "\<not> recognised_psf_type (psf_type (psf (default_args demo_pixel_grid (demo_psf ''MOFFAT''))))
   \<and> Numerics_init (default_args demo_pixel_grid (demo_psf ''MOFFAT''))
     = Inl (ValueError ''psf_type MOFFAT not valid! Chose either NONE, GAUSSIAN or PIXEL.'')
   \<and> Numerics_init (default_args demo_pixel_grid (demo_psf ''NONE''))
     = Inr (demo_engine ''NONE'' None)
   \<and> recognised_psf_type (self_psf_type (demo_engine ''NONE'' None))"
proof -
  have bad: "\<not> recognised_psf_type
               (psf_type (psf (default_args demo_pixel_grid (demo_psf ''MOFFAT''))))"
    by (simp add: recognised_psf_type_def default_args_def demo_psf_def)
  have msg: "psf_type_message (psf_type (psf (default_args demo_pixel_grid (demo_psf ''MOFFAT''))))
               = ''psf_type MOFFAT not valid! Chose either NONE, GAUSSIAN or PIXEL.''"
    by (simp add: psf_type_message_def default_args_def demo_psf_def)
  show ?thesis
    using unrecognised_psf_type_fails [of "default_args demo_pixel_grid (demo_psf ''MOFFAT'')"]
      unrecognised_psf_type_fails [of "default_args demo_pixel_grid (demo_psf ''NONE'')"]
      bad msg demo_init(2)
    by auto
qed




text \<open>
  C6. The constructor picks the convolution object from the PSF type, the compute mode
  and the flag left after the normalisation (the caller's flag, off when the
  supersampling factor is 1). \<^verbatim>\<open>'PIXEL'\<close> with the flag in mode
  \<^verbatim>\<open>'adaptive'\<close> gives the adaptive convolution, with the flag in mode
  \<^verbatim>\<open>'regular'\<close> the subgrid convolution, and without the flag (or in any
  other mode) the pixel-kernel convolution by FFT. \<^verbatim>\<open>'GAUSSIAN'\<close> gives the
  multi-Gaussian convolution with the one sigma FWHM / (2 sqrt (2 ln 2)), the one
  fraction 1 and truncation 4. No later call changes the object's convolution.
\<close>

theorem convolution_chosen_at_construction:
  assumes "Numerics_init a = Inr eng"
    and "ss_conv = (supersampling_convolution a \<and> supersampling_factor a \<noteq> 1)"
    and "ss_indexes = (case supersampled_indexes a of
                         None \<Rightarrow> replicate (fst (num_pixel_axes (pixel_grid a)))
                                   (replicate (snd (num_pixel_axes (pixel_grid a))) False)
                       | Some m \<Rightarrow> m)"
  shows "(psf_type (psf a) = ''PIXEL'' \<and> compute_mode a = ''adaptive'' \<and> ss_conv \<longrightarrow>
            self_conv eng = Some (AdaptiveConvolution
              (kernel_point_source_supersampled (psf a) (supersampling_factor a))
              (supersampling_factor a) ss_indexes (supersampling_kernel_size a)
              (compute_indexes a) True True False))
       \<and> (psf_type (psf a) = ''PIXEL'' \<and> compute_mode a = ''regular'' \<and> ss_conv \<longrightarrow>
            self_conv eng = Some (SubgridKernelConvolution
              (kernel_point_source_supersampled (psf a) (supersampling_factor a))
              (supersampling_factor a) (supersampling_kernel_size a) ''fft''))
       \<and> (psf_type (psf a) = ''PIXEL''
            \<and> (\<not> ss_conv \<or> (compute_mode a \<noteq> ''adaptive'' \<and> compute_mode a \<noteq> ''regular'')) \<longrightarrow>
            self_conv eng = Some (PixelKernelConvolution (kernel_point_source (psf a)) ''fft''))
       \<and> (psf_type (psf a) = ''GAUSSIAN'' \<longrightarrow>
            self_conv eng = Some (MultiGaussianConvolution
              [fwhm (psf a) / (2 * sqrt (2 * ln 2))] [1] (pixel_width (pixel_grid a))
              (supersampling_factor a) ss_conv 4))
       \<and> (\<forall>X cs. self_conv (fst (run X eng cs)) = self_conv eng)"
  using assms
  by (auto simp: Numerics_init_def select_conv_def Let_def fwhm2sigma_def run_keeps_engine
      split: prod.splits if_splits option.splits)

theorem convolution_chosen_at_construction_witness:
  "(\<exists>eng. Numerics_init ((default_args demo_pixel_grid (demo_psf ''PIXEL''))
              \<lparr>supersampling_factor := 2, compute_mode := ''adaptive'',
                supersampling_convolution := True\<rparr>) = Inr eng
          \<and> self_conv eng = Some (AdaptiveConvolution [[1]] 2
               [[False, False], [False, False]] 5 None True True False))
   \<and> (\<exists>eng. Numerics_init ((default_args demo_pixel_grid (demo_psf ''PIXEL''))
              \<lparr>supersampling_factor := 2, supersampling_convolution := True\<rparr>) = Inr eng
          \<and> self_conv eng = Some (SubgridKernelConvolution [[1]] 2 5 ''fft''))
   \<and> (\<exists>eng. Numerics_init ((default_args demo_pixel_grid (demo_psf ''PIXEL''))
              \<lparr>supersampling_factor := 2\<rparr>) = Inr eng
          \<and> self_conv eng = Some (PixelKernelConvolution [[1]] ''fft''))
   \<and> (\<exists>eng. Numerics_init ((default_args demo_pixel_grid (demo_psf ''GAUSSIAN''))
              \<lparr>supersampling_factor := 2, supersampling_convolution := True\<rparr>) = Inr eng
          \<and> self_conv eng = Some (MultiGaussianConvolution
               [(1 / 5) / (2 * sqrt (2 * ln 2))] [1] (1 / 2) 2 True 4))"
proof -
  let ?A1 = "(default_args demo_pixel_grid (demo_psf ''PIXEL''))
              \<lparr>supersampling_factor := 2, compute_mode := ''adaptive'',
                supersampling_convolution := True\<rparr>"
  let ?A2 = "(default_args demo_pixel_grid (demo_psf ''PIXEL''))
              \<lparr>supersampling_factor := 2, supersampling_convolution := True\<rparr>"
  let ?A3 = "(default_args demo_pixel_grid (demo_psf ''PIXEL''))\<lparr>supersampling_factor := 2\<rparr>"
  let ?A4 = "(default_args demo_pixel_grid (demo_psf ''GAUSSIAN''))
              \<lparr>supersampling_factor := 2, supersampling_convolution := True\<rparr>"
  have rec: "recognised_psf_type (psf_type (psf ?A1))" "recognised_psf_type (psf_type (psf ?A2))"
    "recognised_psf_type (psf_type (psf ?A3))" "recognised_psf_type (psf_type (psf ?A4))"
    by (simp_all add: recognised_psf_type_def default_args_def demo_psf_def)
  obtain e1 where e1: "Numerics_init ?A1 = Inr e1"
    using Numerics_init_succeeds [OF rec(1)] by blast
  obtain e2 where e2: "Numerics_init ?A2 = Inr e2"
    using Numerics_init_succeeds [OF rec(2)] by blast
  obtain e3 where e3: "Numerics_init ?A3 = Inr e3"
    using Numerics_init_succeeds [OF rec(3)] by blast
  obtain e4 where e4: "Numerics_init ?A4 = Inr e4"
    using Numerics_init_succeeds [OF rec(4)] by blast
  have "self_conv e1 = Some (AdaptiveConvolution [[1]] 2
               [[False, False], [False, False]] 5 None True True False)"
    using convolution_chosen_at_construction [OF e1 refl refl]
    by (simp add: default_args_def demo_psf_def demo_pixel_grid_def numeral_2_eq_2)
  moreover have "self_conv e2 = Some (SubgridKernelConvolution [[1]] 2 5 ''fft'')"
    using convolution_chosen_at_construction [OF e2 refl refl]
    by (simp add: default_args_def demo_psf_def demo_pixel_grid_def)
  moreover have "self_conv e3 = Some (PixelKernelConvolution [[1]] ''fft'')"
    using convolution_chosen_at_construction [OF e3 refl refl]
    by (simp add: default_args_def demo_psf_def demo_pixel_grid_def)
  moreover have "self_conv e4 = Some (MultiGaussianConvolution
               [(1 / 5) / (2 * sqrt (2 * ln 2))] [1] (1 / 2) 2 True 4)"
    using convolution_chosen_at_construction [OF e4 refl refl]
    by (simp add: default_args_def demo_psf_def demo_pixel_grid_def)
  ultimately show ?thesis
    using e1 e2 e3 e4 by simp
qed

text \<open>
  C7. With the grid and the convolution as the specification describes them,
  \<^verbatim>\<open>re_size_convolve\<close> ends with ShapeMismatch exactly when the flux array and
  \<^verbatim>\<open>coordinates_evaluate\<close> differ in length; the result is then the failure and
  no image.
\<close>

theorem shape_mismatch_iff_length_differs:
  "re_size_convolve (spec_collaborators R blur) eng flux_array unconvolved = Inl ShapeMismatch
     \<longleftrightarrow> length flux_array \<noteq> length (coordinates_evaluate (spec_collaborators R blur) eng)"
  by (auto simp: re_size_convolve_def coordinates_evaluate_def spec_collaborators_def
      spec_flux_array2image_low_high_def split: sum.splits prod.splits option.splits)

theorem shape_mismatch_iff_length_differs_witness:
  "length (coordinates_evaluate demo_collaborators (demo_engine ''NONE'' None)) = 4
   \<and> re_size_convolve demo_collaborators (demo_engine ''NONE'' None) [1, 2, 3] False
     = Inl ShapeMismatch
   \<and> re_size_convolve demo_collaborators (demo_engine ''NONE'' None) [1, 2, 3, 4] False
     \<noteq> Inl ShapeMismatch"
proof -
  have len: "length (coordinates_evaluate demo_collaborators (demo_engine ''NONE'' None)) = 4"
    by (simp add: demo_coordinates)
  have "re_size_convolve demo_collaborators (demo_engine ''NONE'' None) [1, 2, 3] False
          = Inl ShapeMismatch"
    using shape_mismatch_iff_length_differs [of demo_remainder "\<lambda>c lo hi. lo"
        "demo_engine ''NONE'' None" "[1, 2, 3]" False] len
    by (simp add: demo_collaborators_def)
  moreover have "re_size_convolve demo_collaborators (demo_engine ''NONE'' None) [1, 2, 3, 4] False
          \<noteq> Inl ShapeMismatch"
    using shape_mismatch_iff_length_differs [of demo_remainder "\<lambda>c lo hi. lo"
        "demo_engine ''NONE'' None" "[1, 2, 3, 4]" False] len
    by (simp add: demo_collaborators_def)
  ultimately show ?thesis using len by simp
qed

text \<open>
  C8. On a 10 by 10 pixel grid of pixel width 1/10, with PSF type \<^verbatim>\<open>'NONE'\<close>,
  supersampling factor 1, the regular mode and no evaluation mask, the constructor
  succeeds and \<^verbatim>\<open>re_size_convolve\<close> of 100 ones is the 10 by 10 image whose every
  pixel is 1/100, with the grid as the specification describes it.
\<close>

theorem scenario_all_ones:
  assumes "num_pixel_axes (pixel_grid a) = (10, 10)"
    and "pixel_width (pixel_grid a) = 1 / 10"
    and "psf_type (psf a) = ''NONE''"
    and "supersampling_factor a = 1"
    and "compute_mode a = ''regular''"
    and "flux_evaluate_indexes a = None"
  shows "\<exists>eng. Numerics_init a = Inr eng
           \<and> re_size_convolve (spec_collaborators R blur) eng (replicate 100 1) unconvolved
               = Inr (replicate 10 (replicate 10 (1 / 100)))"
proof -
  define eng where "eng =
     \<lparr> self_psf_type = ''NONE'', self_pixel_width = 1 / 10,
       self_grid = RegularGrid 10 10 (transform_pix2angle (pixel_grid a))
         (fst (radec_at_xy_0 (pixel_grid a))) (snd (radec_at_xy_0 (pixel_grid a))) 1 None,
       self_conv = None, base_pixel_grid = pixel_grid a,
       base_supersampling_factor = point_source_supersampling_factor a,
       base_psf = psf a \<rparr>"
  have built: "Numerics_init a = Inr eng"
    using assms by (simp add: Numerics_init_def select_conv_def Let_def split_beta eng_def)
  have a2i: "array2image 10 10 (replicate 100 1) = replicate 10 (replicate 10 1)"
    using array2image_replicate [of 10 10 1] by simp
  have "re_size_convolve (spec_collaborators R blur) eng (replicate 100 1) unconvolved
          = Inr (replicate 10 (replicate 10 (1 / 100)))"
    by (simp add: re_size_convolve_def spec_collaborators_def eng_def
        spec_flux_array2image_low_high_def spec_coordinates_evaluate_def a2i
        image_times_replicate power2_eq_square)
  with built show ?thesis by blast
qed

theorem scenario_all_ones_witness:
  "\<exists>eng. Numerics_init (default_args scenario_pixel_grid (demo_psf ''NONE'')) = Inr eng
      \<and> re_size_convolve demo_collaborators eng (replicate 100 1) False
          = Inr (replicate 10 (replicate 10 (1 / 100)))"
  unfolding demo_collaborators_def
  by (rule scenario_all_ones)
    (simp_all add: default_args_def scenario_pixel_grid_def demo_psf_def)



text \<open>
  C10. The constructor never checks \<^verbatim>\<open>compute_mode\<close>: every value other than
  \<^verbatim>\<open>'adaptive'\<close> gives a regular grid, and the only failure left is the ValueError
  of an unrecognised PSF type.
\<close>

theorem compute_mode_is_not_validated:
  assumes "compute_mode a \<noteq> ''adaptive''"
  shows "(recognised_psf_type (psf_type (psf a)) \<longrightarrow>
           (\<exists>eng. Numerics_init a = Inr eng
              \<and> self_grid eng = RegularGrid (fst (num_pixel_axes (pixel_grid a)))
                   (snd (num_pixel_axes (pixel_grid a))) (transform_pix2angle (pixel_grid a))
                   (fst (radec_at_xy_0 (pixel_grid a))) (snd (radec_at_xy_0 (pixel_grid a)))
                   (supersampling_factor a) (flux_evaluate_indexes a)))
       \<and> (\<forall>e. Numerics_init a = Inl e \<longrightarrow>
             e = ValueError (psf_type_message (psf_type (psf a)))
             \<and> \<not> recognised_psf_type (psf_type (psf a)))"
  using assms
  by (auto simp: Numerics_init_def select_conv_def Let_def recognised_psf_type_def
      split: prod.splits if_splits)

theorem compute_mode_is_not_validated_witness:
  "compute_mode ((default_args demo_pixel_grid (demo_psf ''NONE''))\<lparr>compute_mode := ''adaptve''\<rparr>)
     \<noteq> ''adaptive''
   \<and> (\<exists>eng. Numerics_init
         ((default_args demo_pixel_grid (demo_psf ''NONE''))\<lparr>compute_mode := ''adaptve''\<rparr>)
         = Inr eng
       \<and> self_grid eng = RegularGrid 2 2 [[1 / 2, 0], [0, 1 / 2]] 0 0 1 None)"
proof -
  have ne: "compute_mode
      ((default_args demo_pixel_grid (demo_psf ''NONE''))\<lparr>compute_mode := ''adaptve''\<rparr>)
      \<noteq> ''adaptive''"
    by (simp add: default_args_def)
  show ?thesis
    using compute_mode_is_not_validated [OF ne] ne
    by (simp add: default_args_def demo_pixel_grid_def demo_psf_def recognised_psf_type_def)
qed

end
